theory Spec2Isabelle
  imports Main "HOL-Library.Sublist"
begin

section \<open>The linux platform command of fyne-cross\<close>

text \<open>
  The development embeds \<^verbatim>\<open>internal/command/linux.go\<close>: the package constants, the
  \<^verbatim>\<open>linux\<close> command struct and its methods \<^verbatim>\<open>Parse\<close>, \<^verbatim>\<open>Build\<close> and
  \<^verbatim>\<open>setupContainerImages\<close>. A Go \<^verbatim>\<open>error\<close> value is represented by its message, a
  \<^verbatim>\<open>nil\<close> error by \<open>None\<close>. Everything the file calls in other packages and does I/O
  (the icon preparation, the packaging tool, commands run in a container, the context and
  engine constructors, the logger, the flag set) is a field of a record of collaborators
  that transform an abstract world \<open>'w\<close>; the methods thread that world in program order.
\<close>

subsection \<open>Data\<close>

type_synonym Architecture = string

text \<open>
  Modelled from the spec: the \<^verbatim>\<open>Architecture\<close> constants are declared outside
  \<^verbatim>\<open>linux.go\<close>; the supported set is given as amd64, 386, arm, arm64, which are also the
  \<^verbatim>\<open>GOARCH\<close> values the switch of \<^verbatim>\<open>setupContainerImages\<close> assigns.
\<close>

definition ArchAmd64 :: Architecture where "ArchAmd64 = ''amd64''"
definition Arch386 :: Architecture where "Arch386 = ''386''"
definition ArchArm :: Architecture where "ArchArm = ''arm''"
definition ArchArm64 :: Architecture where "ArchArm64 = ''arm64''"

definition linuxOS :: string where "linuxOS = ''linux''"
definition linuxImageAmd64 :: string where
  "linuxImageAmd64 = ''ghcr.io/herugen/fyne-cross-images-linux:latest''"
definition linuxImage386 :: string where
  "linuxImage386 = ''ghcr.io/herugen/fyne-cross-images-linux:latest''"
definition linuxImageArm64 :: string where
  "linuxImageArm64 = ''ghcr.io/herugen/fyne-cross-images-linux:latest''"
definition linuxImageArm :: string where
  "linuxImageArm = ''ghcr.io/herugen/fyne-cross-images-linux:latest''"

definition linuxArchSupported :: "Architecture list" where
  "linuxArchSupported = [ArchAmd64, Arch386, ArchArm, ArchArm64]"

text \<open>
  Modelled from the spec: the volume of a Build Context defines a working, a temporary
  (staging) and a binary-output directory, each with a host and a container path.
\<close>

record Volume =
  WorkDirHost :: string
  WorkDirContainer :: string
  TmpDirHost :: string
  TmpDirContainer :: string
  BinDirHost :: string
  BinDirContainer :: string

text \<open>
  Modelled from the spec: the Build Context holds the application name, the release flag
  and the volume; \<^verbatim>\<open>Build\<close> reads exactly these.
\<close>

record Context =
  Name :: string
  Release :: bool
  Vol :: Volume

text \<open>
  Modelled from the spec: a Container Image Descriptor carries the architecture, the OS,
  the container image reference handed to the factory, and an environment mapping with
  unique keys.
\<close>

record containerImage =
  Arch :: Architecture
  OS :: string
  DockerImage :: string
  Env :: "string \<rightharpoonup> string"

text \<open>The second argument of \<^verbatim>\<open>image.Run\<close>; \<^verbatim>\<open>options{}\<close> has the empty work directory.\<close>

record options =
  WorkDir :: string

text \<open>
  Modelled from the spec: the common flags carry the caller's optional override of the
  container image reference.
\<close>

record CommonFlags =
  FlagDockerImage :: "string option"

record linuxFlags =
  Common :: CommonFlags
  TargetArch :: "string list"

record linux =
  Images :: "containerImage list"
  defaultContext :: Context

text \<open>
  The collaborators of \<^verbatim>\<open>linux.go\<close>. \<open>'w\<close> is the state of everything outside the
  command (file systems, containers, log); \<open>'e\<close> is the container engine.
  \<open>flagSetParse\<close> stands for \<^verbatim>\<open>flagSet.Parse(args)\<close> followed by \<^verbatim>\<open>flagSet.Args()\<close>:
  it fills the common flags, gives the value of \<^verbatim>\<open>-arch\<close> when the command line has
  one, and the remaining arguments.
\<close>

record ('w, 'e) collaborators =
  GOARCH :: string
  newCommonFlags :: "'w \<Rightarrow> (string + CommonFlags) \<times> 'w"
  flagSetParse :: "CommonFlags \<Rightarrow> string list \<Rightarrow> CommonFlags \<times> string option \<times> string list"
  makeDefaultContext :: "CommonFlags \<Rightarrow> string list \<Rightarrow> 'w \<Rightarrow> (string + Context) \<times> 'w"
  newContainerEngine :: "Context \<Rightarrow> 'w \<Rightarrow> (string + 'e) \<times> 'w"
  logInfo :: "string \<Rightarrow> 'w \<Rightarrow> 'w"
  prepareIcon :: "Context \<Rightarrow> containerImage \<Rightarrow> 'w \<Rightarrow> string option \<times> 'w"
  fyneRelease :: "Context \<Rightarrow> containerImage \<Rightarrow> 'w \<Rightarrow> string option \<times> 'w"
  fynePackage :: "Context \<Rightarrow> containerImage \<Rightarrow> 'w \<Rightarrow> string option \<times> 'w"
  imageRun :: "containerImage \<Rightarrow> Volume \<Rightarrow> options \<Rightarrow> string list \<Rightarrow> 'w \<Rightarrow> string option \<times> 'w"

subsection \<open>Helpers declared outside the file\<close>

text \<open>
  Modelled from the spec: \<^verbatim>\<open>image.ID()\<close> is the descriptor's stable identifier, derived
  from OS and architecture and unique per (OS, architecture).
\<close>

definition ID :: "containerImage \<Rightarrow> string" where
  "ID img = OS img @ ''-'' @ Arch img"

text \<open>
  Modelled from the spec: \<^verbatim>\<open>image.SetEnv(key, value)\<close> stores one entry of the
  environment mapping; keys are unique.
\<close>

definition SetEnv :: "string \<Rightarrow> string \<Rightarrow> containerImage \<Rightarrow> containerImage" where
  "SetEnv key v img = img\<lparr>Env := (Env img)(key \<mapsto> v)\<rparr>"

text \<open>
  Modelled from the spec: \<^verbatim>\<open>volume.JoinPathContainer\<close> joins path elements with the
  container's separator, as in \<^verbatim>\<open><descriptor-id>/<artifact or binary name>\<close>.
\<close>

fun JoinPathContainer :: "string list \<Rightarrow> string" where
  "JoinPathContainer [] = []"
| "JoinPathContainer [e] = e"
| "JoinPathContainer (e # es) = e @ ''/'' @ JoinPathContainer es"

subsection \<open>Build\<close>

text \<open>
  \<^verbatim>\<open>func (cmd *linux) Build(image containerImage) (string, error)\<close>. \<open>Inl\<close> is the
  return of a non-nil error, \<open>Inr\<close> the return of the package name with a nil error.
  The results of the two \<^verbatim>\<open>image.Run\<close> calls are dropped, as in the source.
\<close>

definition Build ::
  "('w, 'e) collaborators \<Rightarrow> linux \<Rightarrow> containerImage \<Rightarrow> 'w \<Rightarrow> (string + string) \<times> 'w" where
  "Build c cmd img w0 =
     (case prepareIcon c (defaultContext cmd) img w0 of
        (Some err, w1) \<Rightarrow> (Inl err, w1)
      | (None, w1) \<Rightarrow>
          (let w2 = logInfo c ''[i] Packaging app...'' w1;
               packageName = Name (defaultContext cmd) @ ''.tar.xz''
           in case (if Release (defaultContext cmd)
                    then fyneRelease c (defaultContext cmd) img w2
                    else fynePackage c (defaultContext cmd) img w2) of
                (Some err, w3) \<Rightarrow> (Inl (''could not package the Fyne app: '' @ err), w3)
              | (None, w3) \<Rightarrow>
                  (let w4 = snd (imageRun c img (Vol (defaultContext cmd)) \<lparr>WorkDir = []\<rparr>
                         [''mv'',
                          JoinPathContainer [WorkDirContainer (Vol (defaultContext cmd)), packageName],
                          JoinPathContainer [TmpDirContainer (Vol (defaultContext cmd)), ID img, packageName]]
                         w3);
                       w5 = snd (imageRun c img (Vol (defaultContext cmd))
                         \<lparr>WorkDir = JoinPathContainer [BinDirContainer (Vol (defaultContext cmd)), ID img]\<rparr>
                         [''tar'', ''-xf'',
                          JoinPathContainer [TmpDirContainer (Vol (defaultContext cmd)), ID img, packageName],
                          ''--strip-components=3'', ''usr/local/bin'']
                         w4)
                   in (Inr packageName, w5))))"

subsection \<open>Target resolution\<close>

text \<open>
  Modelled from the spec: \<^verbatim>\<open>targetArchFlag\<close> and its \<^verbatim>\<open>Set\<close> method are declared
  outside \<^verbatim>\<open>linux.go\<close>; the flag \<^verbatim>\<open>-arch\<close> takes a comma-separated list of
  architecture names.
\<close>

fun targetArchFlag_Set :: "string \<Rightarrow> string list" where
  "targetArchFlag_Set [] = [[]]"
| "targetArchFlag_Set (ch # cs) =
     (if ch = CHR '','' then [] # targetArchFlag_Set cs
      else (case targetArchFlag_Set cs of
              [] \<Rightarrow> [[ch]]
            | t # ts \<Rightarrow> (ch # t) # ts))"

text \<open>
  Modelled from the spec: the ordered set of the requested values, in the caller's
  request order, de-duplicated (the first occurrence of a value keeps its place).
\<close>

fun dedup :: "string list \<Rightarrow> string list" where
  "dedup [] = []"
| "dedup (v # vs) = v # dedup (removeAll v vs)"

text \<open>
  Modelled from the spec: the message of the UnsupportedArchitecture error names the
  offending token and the supported set.
\<close>

fun showArchitectures :: "Architecture list \<Rightarrow> string" where
  "showArchitectures [] = []"
| "showArchitectures [a] = a"
| "showArchitectures (a # as) = a @ '', '' @ showArchitectures as"

definition unsupportedArchitecture :: "string \<Rightarrow> Architecture list \<Rightarrow> string" where
  "unsupportedArchitecture token supportedArch =
     ''arch '' @ token @ '' is not supported. Supported architectures are: {''
       @ showArchitectures supportedArch @ ''}''"

text \<open>
  Modelled from the spec: \<^verbatim>\<open>targetArchFromFlag\<close> is declared outside \<^verbatim>\<open>linux.go\<close>.
  Given the requested names and the supported set it fails with UnsupportedArchitecture
  if any requested token is not in the supported set, and otherwise produces the ordered,
  de-duplicated set of the requested values.
\<close>

definition targetArchFromFlag :: "string list \<Rightarrow> Architecture list \<Rightarrow> string + Architecture list" where
  "targetArchFromFlag flagVar supportedArch =
     (case find (\<lambda>v. v \<notin> set supportedArch) flagVar of
        Some v \<Rightarrow> Inl (unsupportedArchitecture v supportedArch)
      | None \<Rightarrow> Inr (dedup flagVar))"

subsection \<open>Descriptor setup\<close>

text \<open>
  Modelled from the spec: the caller's override of the container image reference takes
  precedence over the default.
\<close>

definition overrideDockerImage :: "CommonFlags \<Rightarrow> string \<Rightarrow> string" where
  "overrideDockerImage flags img =
     (case FlagDockerImage flags of Some override \<Rightarrow> override | None \<Rightarrow> img)"

text \<open>
  Modelled from the spec: the factory \<^verbatim>\<open>createContainerImage(architecture, os,
  imageReference)\<close> of the container engine instantiates a descriptor bound to that OS and
  architecture; the descriptor is inert and its environment mapping is set during setup.
\<close>

definition createContainerImage :: "'e \<Rightarrow> Architecture \<Rightarrow> string \<Rightarrow> string \<Rightarrow> containerImage" where
  "createContainerImage runner arch os img = \<lparr>Arch = arch, OS = os, DockerImage = img, Env = Map.empty\<rparr>"

text \<open>
  The \<^verbatim>\<open>switch arch\<close> statement of \<^verbatim>\<open>setupContainerImages\<close> (lines 160 to 184). It has
  no default case: for any other value the variable \<^verbatim>\<open>image\<close> keeps its zero value, the
  nil interface, which is \<open>None\<close> here.
\<close>

definition switchArch :: "'e \<Rightarrow> CommonFlags \<Rightarrow> Architecture \<Rightarrow> containerImage option" where
  "switchArch runner flags arch =
     (if arch = ArchAmd64 then
        (let img = createContainerImage runner arch linuxOS (overrideDockerImage flags linuxImageAmd64);
             img = SetEnv ''GOARCH'' ''amd64'' img;
             img = SetEnv ''CC'' ''zig cc -target x86_64-linux-gnu -isystem /usr/include -L/usr/lib/x86_64-linux-gnu'' img;
             img = SetEnv ''CXX'' ''zig c++ -target x86_64-linux-gnu -isystem /usr/include -L/usr/lib/x86_64-linux-gnu'' img
         in Some img)
      else if arch = Arch386 then
        (let img = createContainerImage runner arch linuxOS (overrideDockerImage flags linuxImage386);
             img = SetEnv ''GOARCH'' ''386'' img;
             img = SetEnv ''CC'' ''zig cc -target x86-linux-gnu -isystem /usr/include -L/usr/lib/i386-linux-gnu'' img;
             img = SetEnv ''CXX'' ''zig c++ -target x86-linux-gnu -isystem /usr/include -L/usr/lib/i386-linux-gnu'' img
         in Some img)
      else if arch = ArchArm then
        (let img = createContainerImage runner arch linuxOS (overrideDockerImage flags linuxImageArm);
             img = SetEnv ''GOARCH'' ''arm'' img;
             img = SetEnv ''GOARM'' ''7'' img;
             img = SetEnv ''CC'' ''zig cc -target arm-linux-gnueabihf -isystem /usr/include -L/usr/lib/arm-linux-gnueabihf'' img;
             img = SetEnv ''CXX'' ''zig c++ -target arm-linux-gnueabihf -isystem /usr/include -L/usr/lib/arm-linux-gnueabihf'' img
         in Some img)
      else if arch = ArchArm64 then
        (let img = createContainerImage runner arch linuxOS (overrideDockerImage flags linuxImageArm64);
             img = SetEnv ''GOARCH'' ''arm64'' img;
             img = SetEnv ''CC'' ''zig cc -target aarch64-linux-gnu -isystem /usr/include -L/usr/lib/aarch64-linux-gnu'' img;
             img = SetEnv ''CXX'' ''zig c++ -target aarch64-linux-gnu -isystem /usr/include -L/usr/lib/aarch64-linux-gnu'' img
         in Some img)
      else None)"

text \<open>
  The loop \<^verbatim>\<open>for _, arch := range targetArch\<close> (lines 159 to 189) over the images
  appended so far. Calling \<^verbatim>\<open>image.SetEnv\<close> on the nil interface panics: the loop then
  gives \<open>None\<close>.
\<close>

fun setupLoop :: "'e \<Rightarrow> CommonFlags \<Rightarrow> Architecture list \<Rightarrow> containerImage list \<Rightarrow> containerImage list option" where
  "setupLoop runner flags [] images = Some images"
| "setupLoop runner flags (arch # targetArch) images =
     (case switchArch runner flags arch of
        None \<Rightarrow> None
      | Some img \<Rightarrow> setupLoop runner flags targetArch (images @ [SetEnv ''GOOS'' ''linux'' img]))"

text \<open>
  How a method that returns an \<^verbatim>\<open>error\<close> ends: it returns (\<open>Return None\<close> is the nil
  error) or it panics.
\<close>

datatype outcome = Return "string option" | Panic

text \<open>
  \<^verbatim>\<open>func (cmd *linux) setupContainerImages(flags *linuxFlags, args []string) error\<close>:
  the outcome, the command after the call and the world after the call. A panic ends the
  process; the command given with it is the one the loop started from.
\<close>

definition setupContainerImages ::
  "('w, 'e) collaborators \<Rightarrow> linux \<Rightarrow> linuxFlags \<Rightarrow> string list \<Rightarrow> 'w \<Rightarrow> outcome \<times> linux \<times> 'w" where
  "setupContainerImages c cmd flags args w0 =
     (case targetArchFromFlag (TargetArch flags) linuxArchSupported of
        Inl err \<Rightarrow>
          (Return (Some (''could not make build context for '' @ linuxOS @ '' OS: '' @ err)), cmd, w0)
      | Inr targetArch \<Rightarrow>
          (case makeDefaultContext c (Common flags) args w0 of
             (Inl err, w1) \<Rightarrow> (Return (Some err), cmd, w1)
           | (Inr ctx, w1) \<Rightarrow>
               (case newContainerEngine c ctx w1 of
                  (Inl err, w2) \<Rightarrow> (Return (Some err), cmd\<lparr>defaultContext := ctx\<rparr>, w2)
                | (Inr runner, w2) \<Rightarrow>
                    (case setupLoop runner (Common flags) targetArch (Images cmd) of
                       None \<Rightarrow> (Panic, cmd\<lparr>defaultContext := ctx\<rparr>, w2)
                     | Some images \<Rightarrow>
                         (Return None, cmd\<lparr>defaultContext := ctx, Images := images\<rparr>, w2)))))"

subsection \<open>Parse\<close>

text \<open>
  \<^verbatim>\<open>func NewLinuxCommand() *linux\<close> returns the zero value of the struct.
\<close>

definition NewLinuxCommand :: linux where
  "NewLinuxCommand =
     \<lparr>Images = [],
      defaultContext = \<lparr>Name = [], Release = False,
        Vol = \<lparr>WorkDirHost = [], WorkDirContainer = [], TmpDirHost = [], TmpDirContainer = [],
               BinDirHost = [], BinDirContainer = []\<rparr>\<rparr>\<rparr>"


subsection \<open>Recorded runs\<close>

text \<open>
  A concrete set of collaborators for evaluating the methods: the world is the list of
  the actions taken so far, each action a list of words; the three arguments are the
  results of the icon preparation, of the packaging tool and of every container command.
\<close>

definition appContext :: Context where
  "appContext =
     \<lparr>Name = ''app'', Release = False,
      Vol = \<lparr>WorkDirHost = ''/home/dev/app'', WorkDirContainer = ''/app'',
             TmpDirHost = ''/home/dev/app/fyne-cross/tmp'', TmpDirContainer = ''/app/fyne-cross/tmp'',
             BinDirHost = ''/home/dev/app/fyne-cross/bin'', BinDirContainer = ''/app/fyne-cross/bin''\<rparr>\<rparr>"

definition recorded ::
  "string option \<Rightarrow> string option \<Rightarrow> string option \<Rightarrow> (string list list, string) collaborators" where
  "recorded iconErr packageErr runErr =
     \<lparr>GOARCH = ''arm64'',
      newCommonFlags = (\<lambda>w. (Inr \<lparr>FlagDockerImage = None\<rparr>, w @ [[''newCommonFlags'']])),
      flagSetParse = (\<lambda>flags args. (flags, None, args)),
      makeDefaultContext = (\<lambda>flags args w. (Inr appContext, w @ [[''makeDefaultContext'']])),
      newContainerEngine = (\<lambda>ctx w. (Inr ''docker'', w @ [[''newContainerEngine'']])),
      logInfo = (\<lambda>msg w. w @ [[''log'', msg]]),
      prepareIcon = (\<lambda>ctx img w. (iconErr, w @ [[''prepareIcon'']])),
      fyneRelease = (\<lambda>ctx img w. (packageErr, w @ [[''fyne'', ''release'']])),
      fynePackage = (\<lambda>ctx img w. (packageErr, w @ [[''fyne'', ''package'']])),
      imageRun = (\<lambda>img vol opts argv w. (runErr, w @ [argv]))\<rparr>"

definition appCommand :: linux where
  "appCommand = \<lparr>Images = [], defaultContext = appContext\<rparr>"

definition amd64Image :: containerImage where
  "amd64Image = \<lparr>Arch = ''amd64'', OS = ''linux'', DockerImage = linuxImageAmd64, Env = Map.empty\<rparr>"

subsection \<open>Properties of Build\<close>

lemma recorded_sel:
  "prepareIcon (recorded i p r) = (\<lambda>ctx img w. (i, w @ [[''prepareIcon'']]))"
  "fyneRelease (recorded i p r) = (\<lambda>ctx img w. (p, w @ [[''fyne'', ''release'']]))"
  "fynePackage (recorded i p r) = (\<lambda>ctx img w. (p, w @ [[''fyne'', ''package'']]))"
  "imageRun (recorded i p r) = (\<lambda>img vol opts argv w. (r, w @ [argv]))"
  "logInfo (recorded i p r) = (\<lambda>msg w. w @ [[''log'', msg]])"
  by (simp_all add: recorded_def)

lemma appCommand_sel:
  "Name (defaultContext appCommand) = ''app''"
  "Release (defaultContext appCommand) = False"
  "WorkDirContainer (Vol (defaultContext appCommand)) = ''/app''"
  "TmpDirContainer (Vol (defaultContext appCommand)) = ''/app/fyne-cross/tmp''"
  "BinDirContainer (Vol (defaultContext appCommand)) = ''/app/fyne-cross/bin''"
  "ID amd64Image = ''linux-amd64''"
  by (simp_all add: appCommand_def appContext_def amd64Image_def ID_def)

text \<open>
  C1 (the code at the failing input): the application is packaged, then both container
  commands, the relocation (mv) and the extraction (tar), fail with
  \<^verbatim>\<open>exit status 1\<close>. Build still returns the archive name and a nil error; the
  failure reaches no caller.
\<close>

theorem Build_swallows_relocate_extract_failure:
  "Build (recorded None None (Some ''exit status 1'')) appCommand amd64Image [] =
     (Inr ''app.tar.xz'',
      [[''prepareIcon''], [''log'', ''[i] Packaging app...''], [''fyne'', ''package''],
       [''mv'', ''/app/app.tar.xz'', ''/app/fyne-cross/tmp/linux-amd64/app.tar.xz''],
       [''tar'', ''-xf'', ''/app/fyne-cross/tmp/linux-amd64/app.tar.xz'',
        ''--strip-components=3'', ''usr/local/bin'']])"
  by (simp add: Build_def Let_def recorded_sel appCommand_sel)

text \<open>
  C2: if the icon preparation succeeded and the packaging step (fyneRelease when the
  context's release flag is set, fynePackage otherwise) returns an error, Build returns
  that error prefixed with the packaging-failure message, and the world it leaves is the
  one the packaging step left: whatever \<^verbatim>\<open>image.Run\<close> would do, neither the relocation
  nor the extraction is run.
\<close>

theorem Build_packaging_failure:
  assumes "prepareIcon c (defaultContext cmd) img w0 = (None, w1)"
    and "(if Release (defaultContext cmd)
          then fyneRelease c (defaultContext cmd) img (logInfo c ''[i] Packaging app...'' w1)
          else fynePackage c (defaultContext cmd) img (logInfo c ''[i] Packaging app...'' w1))
         = (Some err, w3)"
  shows "Build (c\<lparr>imageRun := run\<rparr>) cmd img w0 =
           (Inl (''could not package the Fyne app: '' @ err), w3)"
  using assms by (simp add: Build_def Let_def split: if_splits)

theorem Build_packaging_failure_witness:
  "Build ((recorded None (Some ''exit status 2'') None)
            \<lparr>imageRun := (\<lambda>img vol opts argv w. (None, w @ [''container''] # [argv]))\<rparr>)
     appCommand amd64Image [] =
   (Inl ''could not package the Fyne app: exit status 2'',
    [[''prepareIcon''], [''log'', ''[i] Packaging app...''], [''fyne'', ''package'']])"
  using Build_packaging_failure [of "recorded None (Some ''exit status 2'') None" appCommand
      amd64Image "[]" "[[''prepareIcon'']]" "''exit status 2''"
      "[[''prepareIcon''], [''log'', ''[i] Packaging app...''], [''fyne'', ''package'']]"
      "\<lambda>img vol opts argv w. (None, w @ [''container''] # [argv])"]
  by (simp add: recorded_sel appCommand_sel)

text \<open>
  C7: the name a successful Build returns is the application name followed by
  \<^verbatim>\<open>.tar.xz\<close>; it depends on nothing else, so two successful runs for the same
  application name return the same name.
\<close>

theorem Build_package_name:
  assumes "fst (Build c cmd img w) = Inr n"
    and "fst (Build c' cmd' img' w') = Inr n'"
    and "Name (defaultContext cmd') = Name (defaultContext cmd)"
  shows "n = Name (defaultContext cmd) @ ''.tar.xz'' \<and> n' = n"
  using assms
  by (auto simp add: Build_def Let_def split: if_splits prod.splits option.splits)

theorem Build_package_name_witness:
  "''app.tar.xz'' = Name (defaultContext appCommand) @ ''.tar.xz''
   \<and> fst (Build (recorded None None None) appCommand amd64Image []) = Inr ''app.tar.xz''
   \<and> fst (Build (recorded None None (Some ''exit status 1'')) (appCommand\<lparr>Images := [amd64Image]\<rparr>)
        (amd64Image\<lparr>Arch := ''arm64''\<rparr>) [[''earlier'']]) = Inr ''app.tar.xz''"
proof -
  have a: "fst (Build (recorded None None None) appCommand amd64Image []) = Inr ''app.tar.xz''"
    by (simp add: Build_def Let_def recorded_sel appCommand_sel)
  have b: "fst (Build (recorded None None (Some ''exit status 1'')) (appCommand\<lparr>Images := [amd64Image]\<rparr>)
        (amd64Image\<lparr>Arch := ''arm64''\<rparr>) [[''earlier'']]) = Inr ''app.tar.xz''"
    by (simp add: Build_def Let_def recorded_sel appCommand_sel)
  have n: "Name (defaultContext (appCommand\<lparr>Images := [amd64Image]\<rparr>)) = Name (defaultContext appCommand)"
    by simp
  from Build_package_name [OF a b n] a b show ?thesis by simp
qed

text \<open>
  C10: when the icon preparation and the packaging step both succeed, Build returns the
  archive name with a nil error. The world it leaves is the one after the two container
  commands (mv, then tar) have been run; the error results of both \<^verbatim>\<open>image.Run\<close> calls
  take no part in what Build returns.
\<close>

theorem Build_discards_run_errors:
  assumes "prepareIcon c (defaultContext cmd) img w0 = (None, w1)"
    and "(if Release (defaultContext cmd)
          then fyneRelease c (defaultContext cmd) img (logInfo c ''[i] Packaging app...'' w1)
          else fynePackage c (defaultContext cmd) img (logInfo c ''[i] Packaging app...'' w1))
         = (None, w3)"
    and "imageRun c img (Vol (defaultContext cmd)) \<lparr>WorkDir = []\<rparr>
           [''mv'',
            JoinPathContainer [WorkDirContainer (Vol (defaultContext cmd)),
              Name (defaultContext cmd) @ ''.tar.xz''],
            JoinPathContainer [TmpDirContainer (Vol (defaultContext cmd)), ID img,
              Name (defaultContext cmd) @ ''.tar.xz'']]
           w3 = (mvErr, w4)"
    and "imageRun c img (Vol (defaultContext cmd))
           \<lparr>WorkDir = JoinPathContainer [BinDirContainer (Vol (defaultContext cmd)), ID img]\<rparr>
           [''tar'', ''-xf'',
            JoinPathContainer [TmpDirContainer (Vol (defaultContext cmd)), ID img,
              Name (defaultContext cmd) @ ''.tar.xz''],
            ''--strip-components=3'', ''usr/local/bin'']
           w4 = (tarErr, w5)"
  shows "Build c cmd img w0 = (Inr (Name (defaultContext cmd) @ ''.tar.xz''), w5)"
  using assms by (simp add: Build_def Let_def split: if_splits)

theorem Build_discards_run_errors_witness:
  "Build (recorded None None (Some ''exit status 1'')) appCommand amd64Image [[''start'']] =
     (Inr ''app.tar.xz'',
      [[''start''], [''prepareIcon''], [''log'', ''[i] Packaging app...''], [''fyne'', ''package''],
       [''mv'', ''/app/app.tar.xz'', ''/app/fyne-cross/tmp/linux-amd64/app.tar.xz''],
       [''tar'', ''-xf'', ''/app/fyne-cross/tmp/linux-amd64/app.tar.xz'',
        ''--strip-components=3'', ''usr/local/bin'']])"
  using Build_discards_run_errors [of "recorded None None (Some ''exit status 1'')" appCommand
      amd64Image "[[''start'']]" "[[''start''], [''prepareIcon'']]"
      "[[''start''], [''prepareIcon''], [''log'', ''[i] Packaging app...''], [''fyne'', ''package'']]"
      "Some ''exit status 1''"
      "[[''start''], [''prepareIcon''], [''log'', ''[i] Packaging app...''], [''fyne'', ''package''],
        [''mv'', ''/app/app.tar.xz'', ''/app/fyne-cross/tmp/linux-amd64/app.tar.xz'']]"
      "Some ''exit status 1''"
      "[[''start''], [''prepareIcon''], [''log'', ''[i] Packaging app...''], [''fyne'', ''package''],
        [''mv'', ''/app/app.tar.xz'', ''/app/fyne-cross/tmp/linux-amd64/app.tar.xz''],
        [''tar'', ''-xf'', ''/app/fyne-cross/tmp/linux-amd64/app.tar.xz'',
         ''--strip-components=3'', ''usr/local/bin'']]"]
  by (simp add: recorded_sel appCommand_sel)

subsection \<open>Properties of the target resolution\<close>

lemma set_dedup: "set (dedup vs) = set vs"
  by (induction vs rule: dedup.induct) auto

lemma distinct_dedup: "distinct (dedup vs)"
  by (induction vs rule: dedup.induct) (auto simp: set_dedup)

lemma subseq_removeAll: "subseq (removeAll v vs) vs"
  by (induction vs) auto

lemma subseq_dedup: "subseq (dedup vs) vs"
proof (induction vs rule: dedup.induct)
  case 1
  show ?case by simp
next
  case (2 v vs)
  have "subseq (dedup (removeAll v vs)) vs"
    using "2.IH" subseq_removeAll [of v vs] by (rule subseq_order.trans)
  then show ?case by simp
qed

lemma remdups_snoc: "remdups (vs @ [v]) = removeAll v (remdups vs) @ [v]"
  by (induction vs) auto

lemma remdups_removeAll: "remdups (removeAll v vs) = removeAll v (remdups vs)"
  by (induction vs) auto

lemma rev_removeAll: "rev (removeAll v vs) = removeAll v (rev vs)"
  by (induction vs) auto

lemma dedup_first_occurrences: "dedup vs = rev (remdups (rev vs))"
proof (induction vs rule: dedup.induct)
  case 1
  show ?case by simp
next
  case (2 v vs)
  have "rev (remdups (rev (v # vs))) = v # removeAll v (rev (remdups (rev vs)))"
    by (simp add: remdups_snoc rev_removeAll)
  also have "removeAll v (rev (remdups (rev vs))) = rev (remdups (rev (removeAll v vs)))"
    by (simp add: rev_removeAll remdups_removeAll)
  finally show ?case using "2.IH" by simp
qed

lemma dedup_distinct: "distinct vs \<Longrightarrow> dedup vs = vs"
  by (induction vs rule: dedup.induct) auto

lemma sublist_between:
  assumes "sublist a ys"
  shows "sublist a (ps @ ys @ ss)"
proof -
  from assms obtain p s where "ys = p @ a @ s" by (auto simp: sublist_def)
  then have "ps @ ys @ ss = (ps @ p) @ a @ (s @ ss)" by simp
  then show ?thesis unfolding sublist_def by blast
qed

lemma sublist_showArchitectures:
  "a \<in> set as \<Longrightarrow> sublist a (showArchitectures as)"
proof (induction as rule: showArchitectures.induct)
  case 1
  then show ?case by simp
next
  case (2 b)
  then show ?case by simp
next
  case (3 b c cs)
  show ?case
  proof (cases "a = b")
    case True
    then show ?thesis by simp
  next
    case False
    with 3 have "sublist a (showArchitectures (c # cs))" by simp
    then have "sublist a ((b @ '', '') @ showArchitectures (c # cs) @ [])"
      by (rule sublist_between)
    then show ?thesis by simp
  qed
qed

lemma unsupportedArchitecture_names:
  "sublist token (unsupportedArchitecture token supportedArch)"
  "a \<in> set supportedArch \<Longrightarrow> sublist a (unsupportedArchitecture token supportedArch)"
proof -
  show "sublist token (unsupportedArchitecture token supportedArch)"
    unfolding unsupportedArchitecture_def by (rule sublist_appendI)
next
  assume "a \<in> set supportedArch"
  then have "sublist a (showArchitectures supportedArch)"
    by (rule sublist_showArchitectures)
  then have "sublist a ((''arch '' @ token @ '' is not supported. Supported architectures are: {'')
      @ showArchitectures supportedArch @ ''}'')"
    by (rule sublist_between)
  then show "sublist a (unsupportedArchitecture token supportedArch)"
    by (simp add: unsupportedArchitecture_def)
qed

lemma targetArchFromFlag_supported:
  assumes "set flagVar \<subseteq> set supportedArch"
  shows "targetArchFromFlag flagVar supportedArch = Inr (dedup flagVar)"
proof -
  have "find (\<lambda>v. v \<notin> set supportedArch) flagVar = None"
    using assms by (auto simp: find_None_iff)
  then show ?thesis by (simp add: targetArchFromFlag_def)
qed

lemma targetArchFromFlag_unsupported:
  assumes "\<not> set flagVar \<subseteq> set supportedArch"
  shows "\<exists>token. token \<in> set flagVar \<and> token \<notin> set supportedArch
           \<and> targetArchFromFlag flagVar supportedArch = Inl (unsupportedArchitecture token supportedArch)"
proof -
  from assms obtain v where "find (\<lambda>v. v \<notin> set supportedArch) flagVar = Some v"
    by (cases "find (\<lambda>v. v \<notin> set supportedArch) flagVar") (auto simp: find_None_iff)
  moreover from this have "v \<in> set flagVar \<and> v \<notin> set supportedArch"
    by (auto simp: find_Some_iff)
  ultimately show ?thesis by (auto simp: targetArchFromFlag_def)
qed

lemma linuxArchSupported_set:
  "set linuxArchSupported = {''amd64'', ''386'', ''arm'', ''arm64''}"
  by (simp add: linuxArchSupported_def ArchAmd64_def Arch386_def ArchArm_def ArchArm64_def)

text \<open>
  C3: for a request of supported tokens only, the resolution returns the requested values
  in request order without duplicates (each value at the place of its first occurrence);
  for a request with a token outside the supported set it fails with the
  UnsupportedArchitecture error, whose message names that token and every member of the
  supported set.
\<close>

theorem targetArchFromFlag_linux:
  "(set flagVar \<subseteq> set linuxArchSupported \<longrightarrow>
      (\<exists>targetArch. targetArchFromFlag flagVar linuxArchSupported = Inr targetArch
         \<and> distinct targetArch \<and> set targetArch = set flagVar \<and> subseq targetArch flagVar
         \<and> targetArch = rev (remdups (rev flagVar))))
   \<and> (\<not> set flagVar \<subseteq> set linuxArchSupported \<longrightarrow>
      (\<exists>token. token \<in> set flagVar \<and> token \<notin> set linuxArchSupported
         \<and> targetArchFromFlag flagVar linuxArchSupported
             = Inl (unsupportedArchitecture token linuxArchSupported)
         \<and> sublist token (unsupportedArchitecture token linuxArchSupported)
         \<and> (\<forall>a \<in> set linuxArchSupported.
               sublist a (unsupportedArchitecture token linuxArchSupported))))"
proof (intro conjI impI)
  assume "set flagVar \<subseteq> set linuxArchSupported"
  then have "targetArchFromFlag flagVar linuxArchSupported = Inr (dedup flagVar)"
    by (rule targetArchFromFlag_supported)
  then show "\<exists>targetArch. targetArchFromFlag flagVar linuxArchSupported = Inr targetArch
         \<and> distinct targetArch \<and> set targetArch = set flagVar \<and> subseq targetArch flagVar
         \<and> targetArch = rev (remdups (rev flagVar))"
    using distinct_dedup [of flagVar] set_dedup [of flagVar] subseq_dedup [of flagVar]
      dedup_first_occurrences [of flagVar] by simp
next
  assume "\<not> set flagVar \<subseteq> set linuxArchSupported"
  then obtain token where t: "token \<in> set flagVar" "token \<notin> set linuxArchSupported"
    "targetArchFromFlag flagVar linuxArchSupported = Inl (unsupportedArchitecture token linuxArchSupported)"
    using targetArchFromFlag_unsupported by blast
  then show "\<exists>token. token \<in> set flagVar \<and> token \<notin> set linuxArchSupported
         \<and> targetArchFromFlag flagVar linuxArchSupported
             = Inl (unsupportedArchitecture token linuxArchSupported)
         \<and> sublist token (unsupportedArchitecture token linuxArchSupported)
         \<and> (\<forall>a \<in> set linuxArchSupported.
               sublist a (unsupportedArchitecture token linuxArchSupported))"
    using unsupportedArchitecture_names by blast
qed

theorem targetArchFromFlag_linux_witness:
  "targetArchFromFlag [''arm64'', ''amd64'', ''arm64'', ''386''] linuxArchSupported
     = Inr [''arm64'', ''amd64'', ''386'']
   \<and> targetArchFromFlag [''amd64'', ''riscv''] linuxArchSupported
     = Inl ''arch riscv is not supported. Supported architectures are: {amd64, 386, arm, arm64}''"
proof -
  have s: "set [''arm64'', ''amd64'', ''arm64'', ''386''] \<subseteq> set linuxArchSupported"
    by (simp add: linuxArchSupported_set)
  have u: "\<not> set [''amd64'', ''riscv''] \<subseteq> set linuxArchSupported"
    by (simp add: linuxArchSupported_set)
  have 1: "targetArchFromFlag [''arm64'', ''amd64'', ''arm64'', ''386''] linuxArchSupported
     = Inr [''arm64'', ''amd64'', ''386'']"
    using targetArchFromFlag_linux [of "[''arm64'', ''amd64'', ''arm64'', ''386'']"] s by auto
  obtain token where t: "token \<in> set [''amd64'', ''riscv'']" "token \<notin> set linuxArchSupported"
    "targetArchFromFlag [''amd64'', ''riscv''] linuxArchSupported
       = Inl (unsupportedArchitecture token linuxArchSupported)"
    using targetArchFromFlag_linux [of "[''amd64'', ''riscv'']"] u by blast
  then have "token = ''riscv''" by (auto simp: linuxArchSupported_set)
  with t(3) have 2: "targetArchFromFlag [''amd64'', ''riscv''] linuxArchSupported
     = Inl ''arch riscv is not supported. Supported architectures are: {amd64, 386, arm, arm64}''"
    by (simp add: unsupportedArchitecture_def linuxArchSupported_def ArchAmd64_def Arch386_def
        ArchArm_def ArchArm64_def)
  from 1 2 show ?thesis by simp
qed

subsection \<open>Properties of the descriptor setup\<close>

lemma switchArch_supported:
  assumes "arch \<in> set linuxArchSupported"
  shows "\<exists>img. switchArch runner flags arch = Some img"
  using assms by (auto simp: linuxArchSupported_def switchArch_def Let_def)


lemma SetEnv_sel:
  "Env (SetEnv key v img) = (Env img)(key \<mapsto> v)"
  "Arch (SetEnv key v img) = Arch img"
  "OS (SetEnv key v img) = OS img"
  "DockerImage (SetEnv key v img) = DockerImage img"
  by (simp_all add: SetEnv_def)

lemma setupLoop_supported:
  assumes "set targetArch \<subseteq> set linuxArchSupported"
  shows "\<exists>ds. setupLoop runner flags targetArch images = Some (images @ ds)
           \<and> list_all2 (\<lambda>arch d. \<exists>img. switchArch runner flags arch = Some img
                                   \<and> d = SetEnv ''GOOS'' ''linux'' img) targetArch ds"
  using assms
proof (induction targetArch arbitrary: images)
  case Nil
  show ?case by simp
next
  case (Cons arch targetArch)
  from Cons.prems obtain img where img: "switchArch runner flags arch = Some img"
    using switchArch_supported [of arch runner flags] by auto
  from Cons.prems have "set targetArch \<subseteq> set linuxArchSupported" by simp
  from Cons.IH [OF this, of "images @ [SetEnv ''GOOS'' ''linux'' img]"]
  obtain ds where ds:
    "setupLoop runner flags targetArch (images @ [SetEnv ''GOOS'' ''linux'' img])
       = Some ((images @ [SetEnv ''GOOS'' ''linux'' img]) @ ds)"
    "list_all2 (\<lambda>arch d. \<exists>img. switchArch runner flags arch = Some img
                                   \<and> d = SetEnv ''GOOS'' ''linux'' img) targetArch ds"
    by blast
  have "setupLoop runner flags (arch # targetArch) images
          = Some (images @ (SetEnv ''GOOS'' ''linux'' img # ds))"
    using img ds(1) by simp
  moreover have "list_all2 (\<lambda>arch d. \<exists>img. switchArch runner flags arch = Some img
                                   \<and> d = SetEnv ''GOOS'' ''linux'' img)
                   (arch # targetArch) (SetEnv ''GOOS'' ''linux'' img # ds)"
    using img ds(2) by simp
  ultimately show ?case by blast
qed



lemma recorded_setup_sel:
  "GOARCH (recorded i p r) = ''arm64''"
  "newCommonFlags (recorded i p r) = (\<lambda>w. (Inr \<lparr>FlagDockerImage = None\<rparr>, w @ [[''newCommonFlags'']]))"
  "flagSetParse (recorded i p r) = (\<lambda>flags args. (flags, None, args))"
  "makeDefaultContext (recorded i p r) = (\<lambda>flags args w. (Inr appContext, w @ [[''makeDefaultContext'']]))"
  "newContainerEngine (recorded i p r) = (\<lambda>ctx w. (Inr ''docker'', w @ [[''newContainerEngine'']]))"
  by (simp_all add: recorded_def)

text \<open>
  C4: for resolved (supported) architectures the loop of setupContainerImages appends one
  descriptor per architecture; each is the result of the architecture's switch case with
  the entry GOOS=linux set on it afterwards, as the last write, so its mapping has the
  value linux at the key GOOS and no other value there, and the key GOOS holds linux
  after that write whatever the mapping held before it.
\<close>

theorem setupLoop_GOOS:
  assumes "set targetArch \<subseteq> set linuxArchSupported"
  shows "(\<exists>ds. setupLoop runner flags targetArch images = Some (images @ ds)
           \<and> list_all2 (\<lambda>arch d. \<exists>img. switchArch runner flags arch = Some img
                                   \<and> d = SetEnv ''GOOS'' ''linux'' img
                                   \<and> Env d ''GOOS'' = Some linuxOS
                                   \<and> {v. Env d ''GOOS'' = Some v} = {linuxOS}) targetArch ds)
         \<and> (\<forall>any. Env (SetEnv ''GOOS'' ''linux'' any) ''GOOS'' = Some linuxOS)"
proof -
  from setupLoop_supported [OF assms, of runner flags images] obtain ds where ds:
    "setupLoop runner flags targetArch images = Some (images @ ds)"
    "list_all2 (\<lambda>arch d. \<exists>img. switchArch runner flags arch = Some img
                                   \<and> d = SetEnv ''GOOS'' ''linux'' img) targetArch ds"
    by blast
  have "list_all2 (\<lambda>arch d. \<exists>img. switchArch runner flags arch = Some img
                                   \<and> d = SetEnv ''GOOS'' ''linux'' img
                                   \<and> Env d ''GOOS'' = Some linuxOS
                                   \<and> {v. Env d ''GOOS'' = Some v} = {linuxOS}) targetArch ds"
    using ds(2) by (rule list_all2_mono) (auto simp: SetEnv_sel linuxOS_def)
  with ds(1) show ?thesis by (auto simp: SetEnv_sel linuxOS_def)
qed

theorem setupLoop_GOOS_witness:
  "\<exists>d1 d2. setupLoop ''docker'' \<lparr>FlagDockerImage = None\<rparr> [''arm'', ''386''] [] = Some [d1, d2]
      \<and> Env d1 ''GOOS'' = Some ''linux'' \<and> Env d2 ''GOOS'' = Some ''linux''"
proof -
  have s: "set [''arm'', ''386''] \<subseteq> set linuxArchSupported"
    by (simp add: linuxArchSupported_set)
  from setupLoop_GOOS [OF s, of "''docker''" "\<lparr>FlagDockerImage = None\<rparr>" "[]"]
  show ?thesis by (auto simp: list_all2_Cons1 linuxOS_def)
qed

text \<open>
  C8: when the request holds a token outside the supported set, setupContainerImages
  returns the resolution's UnsupportedArchitecture error (under the prefix naming the OS)
  and leaves the command and the world as they were, whatever the context constructor,
  the engine constructor and the other collaborators do: none of them is reached.
\<close>

theorem setupContainerImages_unsupported:
  assumes "\<not> set (TargetArch flags) \<subseteq> set linuxArchSupported"
  shows "\<exists>token. token \<in> set (TargetArch flags) \<and> token \<notin> set linuxArchSupported
           \<and> setupContainerImages c cmd flags args w =
               (Return (Some (''could not make build context for linux OS: ''
                              @ unsupportedArchitecture token linuxArchSupported)), cmd, w)"
proof -
  from targetArchFromFlag_unsupported [OF assms] obtain token where
    "token \<in> set (TargetArch flags)" "token \<notin> set linuxArchSupported"
    "targetArchFromFlag (TargetArch flags) linuxArchSupported
       = Inl (unsupportedArchitecture token linuxArchSupported)"
    by blast
  then show ?thesis by (auto simp: setupContainerImages_def linuxOS_def)
qed

theorem setupContainerImages_unsupported_witness:
  "setupContainerImages (recorded None None None) NewLinuxCommand
     \<lparr>Common = \<lparr>FlagDockerImage = None\<rparr>, TargetArch = [''amd64'', ''riscv'']\<rparr> [] []
   = (Return (Some ''could not make build context for linux OS: arch riscv is not supported. Supported architectures are: {amd64, 386, arm, arm64}''),
      NewLinuxCommand, [])"
proof -
  have u: "\<not> set (TargetArch \<lparr>Common = \<lparr>FlagDockerImage = None\<rparr>, TargetArch = [''amd64'', ''riscv'']\<rparr>)
             \<subseteq> set linuxArchSupported"
    by (simp add: linuxArchSupported_set)
  from setupContainerImages_unsupported [OF u, of "recorded None None None" NewLinuxCommand "[]" "[]"]
  obtain token where t: "token \<in> set [''amd64'', ''riscv'']" "token \<notin> set linuxArchSupported"
    "setupContainerImages (recorded None None None) NewLinuxCommand
       \<lparr>Common = \<lparr>FlagDockerImage = None\<rparr>, TargetArch = [''amd64'', ''riscv'']\<rparr> [] []
     = (Return (Some (''could not make build context for linux OS: ''
                      @ unsupportedArchitecture token linuxArchSupported)), NewLinuxCommand, [])"
    by auto
  from t(1,2) have "token = ''riscv''" by (auto simp: linuxArchSupported_set)
  with t(3) show ?thesis
    by (simp add: unsupportedArchitecture_def linuxArchSupported_def ArchAmd64_def Arch386_def
        ArchArm_def ArchArm64_def)
qed



text \<open>
  C6: for the request \<^verbatim>\<open>amd64,arm64\<close> the resolution yields amd64 and arm64 in this
  order, and setupContainerImages, once the context and the engine are made, returns nil
  with exactly two descriptors: the first for amd64 with GOARCH=amd64, the x86_64
  compiler commands as CC and CXX, GOOS=linux and no GOARM entry; the second for arm64
  with GOARCH=arm64, the aarch64 compiler commands as CC and CXX, and GOOS=linux.
\<close>

theorem setupContainerImages_amd64_arm64:
  assumes "TargetArch flags = targetArchFlag_Set ''amd64,arm64''"
    and "Images cmd = []"
    and "makeDefaultContext c (Common flags) args w0 = (Inr ctx, w1)"
    and "newContainerEngine c ctx w1 = (Inr runner, w2)"
  shows "targetArchFromFlag (TargetArch flags) linuxArchSupported = Inr [ArchAmd64, ArchArm64]
     \<and> (\<exists>a b. setupContainerImages c cmd flags args w0
                 = (Return None, cmd\<lparr>defaultContext := ctx, Images := [a, b]\<rparr>, w2)
          \<and> Arch a = ArchAmd64
          \<and> Env a ''GOARCH'' = Some ''amd64''
          \<and> Env a ''GOARM'' = None
          \<and> Env a ''CC'' = Some ''zig cc -target x86_64-linux-gnu -isystem /usr/include -L/usr/lib/x86_64-linux-gnu''
          \<and> Env a ''CXX'' = Some ''zig c++ -target x86_64-linux-gnu -isystem /usr/include -L/usr/lib/x86_64-linux-gnu''
          \<and> Env a ''GOOS'' = Some ''linux''
          \<and> Arch b = ArchArm64
          \<and> Env b ''GOARCH'' = Some ''arm64''
          \<and> Env b ''CC'' = Some ''zig cc -target aarch64-linux-gnu -isystem /usr/include -L/usr/lib/aarch64-linux-gnu''
          \<and> Env b ''CXX'' = Some ''zig c++ -target aarch64-linux-gnu -isystem /usr/include -L/usr/lib/aarch64-linux-gnu''
          \<and> Env b ''GOOS'' = Some ''linux'')"
proof -
  have req: "TargetArch flags = [''amd64'', ''arm64'']"
    using assms(1) by simp
  have res: "targetArchFromFlag (TargetArch flags) linuxArchSupported = Inr [ArchAmd64, ArchArm64]"
    unfolding req
    by (simp add: targetArchFromFlag_def linuxArchSupported_def ArchAmd64_def Arch386_def
        ArchArm_def ArchArm64_def)
  obtain a where a: "switchArch runner (Common flags) ArchAmd64 = Some a"
    using switchArch_supported [of ArchAmd64 runner "Common flags"]
    by (auto simp: linuxArchSupported_def)
  obtain b where b: "switchArch runner (Common flags) ArchArm64 = Some b"
    using switchArch_supported [of ArchArm64 runner "Common flags"]
    by (auto simp: linuxArchSupported_def)
  have loop: "setupLoop runner (Common flags) [ArchAmd64, ArchArm64] []
                = Some [SetEnv ''GOOS'' ''linux'' a, SetEnv ''GOOS'' ''linux'' b]"
    using a b by simp
  have run: "setupContainerImages c cmd flags args w0
               = (Return None,
                  cmd\<lparr>defaultContext := ctx,
                      Images := [SetEnv ''GOOS'' ''linux'' a, SetEnv ''GOOS'' ''linux'' b]\<rparr>, w2)"
    using res assms(2-4) loop by (simp add: setupContainerImages_def)
  have ea: "Arch a = ArchAmd64"
    "Env a = [''GOARCH'' \<mapsto> ''amd64'',
              ''CC'' \<mapsto> ''zig cc -target x86_64-linux-gnu -isystem /usr/include -L/usr/lib/x86_64-linux-gnu'',
              ''CXX'' \<mapsto> ''zig c++ -target x86_64-linux-gnu -isystem /usr/include -L/usr/lib/x86_64-linux-gnu'']"
    using a by (auto simp: switchArch_def Let_def SetEnv_def createContainerImage_def)
  have eb: "Arch b = ArchArm64"
    "Env b = [''GOARCH'' \<mapsto> ''arm64'',
              ''CC'' \<mapsto> ''zig cc -target aarch64-linux-gnu -isystem /usr/include -L/usr/lib/aarch64-linux-gnu'',
              ''CXX'' \<mapsto> ''zig c++ -target aarch64-linux-gnu -isystem /usr/include -L/usr/lib/aarch64-linux-gnu'']"
    using b
    by (auto simp: switchArch_def Let_def SetEnv_def createContainerImage_def
        ArchAmd64_def Arch386_def ArchArm_def ArchArm64_def)
  have "Arch (SetEnv ''GOOS'' ''linux'' a) = ArchAmd64"
    "Env (SetEnv ''GOOS'' ''linux'' a) ''GOARCH'' = Some ''amd64''"
    "Env (SetEnv ''GOOS'' ''linux'' a) ''GOARM'' = None"
    "Env (SetEnv ''GOOS'' ''linux'' a) ''CC'' = Some ''zig cc -target x86_64-linux-gnu -isystem /usr/include -L/usr/lib/x86_64-linux-gnu''"
    "Env (SetEnv ''GOOS'' ''linux'' a) ''CXX'' = Some ''zig c++ -target x86_64-linux-gnu -isystem /usr/include -L/usr/lib/x86_64-linux-gnu''"
    "Env (SetEnv ''GOOS'' ''linux'' a) ''GOOS'' = Some ''linux''"
    "Arch (SetEnv ''GOOS'' ''linux'' b) = ArchArm64"
    "Env (SetEnv ''GOOS'' ''linux'' b) ''GOARCH'' = Some ''arm64''"
    "Env (SetEnv ''GOOS'' ''linux'' b) ''CC'' = Some ''zig cc -target aarch64-linux-gnu -isystem /usr/include -L/usr/lib/aarch64-linux-gnu''"
    "Env (SetEnv ''GOOS'' ''linux'' b) ''CXX'' = Some ''zig c++ -target aarch64-linux-gnu -isystem /usr/include -L/usr/lib/aarch64-linux-gnu''"
    "Env (SetEnv ''GOOS'' ''linux'' b) ''GOOS'' = Some ''linux''"
    by (simp_all add: SetEnv_sel ea eb)
  with res run show ?thesis by blast
qed

theorem setupContainerImages_amd64_arm64_witness:
  "targetArchFromFlag (targetArchFlag_Set ''amd64,arm64'') linuxArchSupported = Inr [''amd64'', ''arm64'']
   \<and> (\<exists>a b. setupContainerImages (recorded None None None) NewLinuxCommand
               \<lparr>Common = \<lparr>FlagDockerImage = None\<rparr>, TargetArch = targetArchFlag_Set ''amd64,arm64''\<rparr> [] []
             = (Return None, NewLinuxCommand\<lparr>defaultContext := appContext, Images := [a, b]\<rparr>,
                [[''makeDefaultContext''], [''newContainerEngine'']])
        \<and> Env a ''GOARCH'' = Some ''amd64'' \<and> Env a ''GOARM'' = None \<and> Env a ''GOOS'' = Some ''linux''
        \<and> Env b ''GOARCH'' = Some ''arm64'' \<and> Env b ''GOOS'' = Some ''linux'')"
proof -
  have 1: "TargetArch \<lparr>Common = \<lparr>FlagDockerImage = None\<rparr>, TargetArch = targetArchFlag_Set ''amd64,arm64''\<rparr>
             = targetArchFlag_Set ''amd64,arm64''"
    by simp
  have 2: "Images NewLinuxCommand = []" by (simp add: NewLinuxCommand_def)
  have 3: "makeDefaultContext (recorded None None None)
             (Common \<lparr>Common = \<lparr>FlagDockerImage = None\<rparr>, TargetArch = targetArchFlag_Set ''amd64,arm64''\<rparr>)
             [] [] = (Inr appContext, [[''makeDefaultContext'']])"
    by (simp add: recorded_setup_sel)
  have 4: "newContainerEngine (recorded None None None) appContext [[''makeDefaultContext'']]
             = (Inr ''docker'', [[''makeDefaultContext''], [''newContainerEngine'']])"
    by (simp add: recorded_setup_sel)
  from setupContainerImages_amd64_arm64 [OF 1 2 3 4]
  show ?thesis unfolding 1 by (simp add: ArchAmd64_def ArchArm64_def) blast
qed



end
